theory Spec2Isabelle
  imports Main "HOL-Library.AList"
begin

section \<open>The TypeScript loader: data model\<close>

text \<open>
  A shallow embedding of \<^verbatim>\<open>src/typescript-simple-loader.ts\<close>. Objects that the source
  mutates in place are passed in and returned updated. Collaborators that live outside the
  file (the file system, the TypeScript compiler, \<^verbatim>\<open>JSON.parse\<close>, \<^verbatim>\<open>loader-utils\<close>)
  are parameters, gathered in the records \<open>Disk\<close> and \<open>Env\<close>.

  Field names follow the source. \<^verbatim>\<open>text\<close>, \<^verbatim>\<open>file\<close> and \<^verbatim>\<open>context\<close> are reserved words
  of the theory language and carry a prime; a field name that two interfaces of the source
  share, or that the source also uses for a variable, is prefixed (\<open>out_text\<close>,
  \<open>map_file\<close>, \<open>err_file\<close>, \<open>sourceFile_fileName\<close>, \<open>host_files\<close>).
  \<open>loader_update\<close> and \<open>loader_result\<close> are the two halves of \<^verbatim>\<open>loader\<close>, before
  and after its call of the compiler.

  Numbers: \<^verbatim>\<open>version\<close>, line and character counts are JavaScript numbers that only ever
  hold small non-negative integers (a counter started at 0 and incremented once per
  request or watch cycle); they are natural numbers here, which is exact below \<open>2^53\<close>.
  Paths are absolute file names, so no path is a member name of \<^verbatim>\<open>Object.prototype\<close>
  and a lookup in a plain object is a lookup in a finite map.
\<close>

subsection \<open>The virtual file registry\<close>

text \<open>\<^verbatim>\<open>type FilesMap = ts.Map<{ version: number, text: string }>\<close> (line 38).
  The registry is an association list in insertion order, the order in which
  \<^verbatim>\<open>Object.keys(files)\<close> enumerates it: \<open>AList.update\<close> overwrites an existing key in
  place and appends a new one, \<open>AList.delete\<close> is \<^verbatim>\<open>delete files[fileName]\<close>.\<close>

record FileRecord =
  version :: nat
  text' :: string

type_synonym FilesMap = "(string \<times> FileRecord) list"

subsection \<open>The file system\<close>

text \<open>\<open>statSync d f\<close> is \<open>None\<close> when \<^verbatim>\<open>statSync(f)\<close> throws and otherwise the
  answer of \<^verbatim>\<open>isFile()\<close>; \<open>readFileSync d f\<close> is \<open>None\<close> when the read throws.\<close>

record Disk =
  statSync :: "string \<Rightarrow> bool option"
  readFileSync :: "string \<Rightarrow> string option"

text \<open>Lines 248-254.\<close>

definition fileExists :: "Disk \<Rightarrow> string \<Rightarrow> bool" where
  "fileExists d fileName =
     (case statSync d fileName of None \<Rightarrow> False | Some isFile \<Rightarrow> isFile)"

text \<open>Lines 314-316: the regular expression \<^verbatim>\<open>/\.d\.ts$/\<close> holds of the names that end
  in \<^verbatim>\<open>.d.ts\<close> (without the multiline flag, \<^verbatim>\<open>$\<close> is the end of the input).\<close>

definition isDefinition :: "string \<Rightarrow> bool" where
  "isDefinition fileName = (drop (length fileName - 5) fileName = ''.d.ts'')"

subsection \<open>Numbers as decimal strings\<close>

text \<open>\<^verbatim>\<open>Number.prototype.toString\<close> and the template literal of line 265, on a
  non-negative integer: its decimal digits (JavaScript changes to exponent notation from
  \<open>10^21\<close> on, beyond the numbers of this model).\<close>

fun toString :: "nat \<Rightarrow> string" where
  "toString n =
     (if n < 10 then [''0123456789'' ! n]
      else toString (n div 10) @ [''0123456789'' ! (n mod 10)])"

declare toString.simps [simp del]

subsection \<open>The webpack loader context\<close>

text \<open>\<^verbatim>\<open>interface WebPackLoader\<close> (lines 8-25). The methods that change the
  context are fields that record their effect: \<open>cacheable\<close> is the flag set by
  \<^verbatim>\<open>cacheable()\<close>, \<open>dependencies\<close> the arguments of \<^verbatim>\<open>addDependency\<close> so far,
  \<open>emittedErrors\<close> those of \<^verbatim>\<open>emitError\<close>. \<open>options_context\<close> is
  \<^verbatim>\<open>options.context\<close>.\<close>

record WebPackLoader =
  query :: string
  resourcePath :: string
  context' :: string
  sourceMap :: bool
  options_context :: string
  cacheable :: bool
  dependencies :: "string list"
  emittedErrors :: "string list"

definition addDependency :: "string \<Rightarrow> WebPackLoader \<Rightarrow> WebPackLoader" where
  "addDependency fileName l = l\<lparr>dependencies := dependencies l @ [fileName]\<rparr>"

text \<open>\<^verbatim>\<open>interface SourceMap\<close> (lines 27-31); whatever else the parsed object holds
  is the extension part of the record.\<close>

record SourceMap =
  sources :: "string list"
  map_file :: string
  sourcesContent :: "string list"

text \<open>\<^verbatim>\<open>interface Options\<close> (lines 33-36).\<close>

record Options =
  compiler :: "string option"
  configFile :: "string option"

subsection \<open>What the compiler hands over\<close>

text \<open>Diagnostics as \<^verbatim>\<open>typescript.d.ts\<close> declares them. A message is a string or a
  chain of messages.\<close>

datatype DiagnosticMessageChain =
  DiagnosticMessageChain (chain_messageText: string) (chain_next: "DiagnosticMessageChain option")

datatype MessageText = Plain string | Chained DiagnosticMessageChain

record SourceFile =
  sourceFile_fileName :: string
  getLineAndCharacterOfPosition :: "nat \<Rightarrow> nat \<times> nat"

record Diagnostic =
  file' :: "SourceFile option"
  start :: nat
  messageText :: MessageText

record OutputFile =
  out_name :: string
  out_text :: string

record EmitOutput =
  outputFiles :: "OutputFile list"
  emitSkipped :: bool

text \<open>JavaScript exceptions that leave a function of the loader.\<close>

datatype exn = TypeError | SyntaxError | FsError | QueryError | ServiceError

text \<open>The two ways the loader answers webpack (lines 20-21):
  \<^verbatim>\<open>callback(err)\<close> and \<^verbatim>\<open>callback(null, contents, sourceMap)\<close>.\<close>

datatype 'm callback =
  Failed string
| Succeeded string "'m SourceMap_scheme option"

text \<open>One call of \<^verbatim>\<open>service.getEmitOutput\<close>, seen from the host: the compiler
  either delivers its output or calls one of the three host methods that look at the
  registry and goes on with the answer.\<close>

datatype compiler =
  Output EmitOutput
| GetScriptFileNames "string list \<Rightarrow> compiler"
| GetScriptVersion string "string option \<Rightarrow> compiler"
| GetScriptSnapshot string "string option \<Rightarrow> compiler"

text \<open>The collaborators outside the file.
  \<^item> \<open>parseQuery\<close>: \<^verbatim>\<open>loader-utils\<close>, \<open>None\<close> when it throws;
  \<^item> \<open>resolveConfig\<close>: lines 140-151 and 204 of \<^verbatim>\<open>createService\<close>, that is loading
    the compiler module, finding, reading and parsing the configuration and creating the
    language service; the result is the list \<^verbatim>\<open>config.errors\<close> and the service, or an
    exception;
  \<^item> \<open>fileNames\<close>: \<^verbatim>\<open>config.fileNames\<close> of a service;
  \<^item> \<open>getEmitOutput\<close>: the behaviour of \<^verbatim>\<open>service.getEmitOutput(fileName)\<close>;
  \<^item> \<open>JSON_parse\<close>: \<^verbatim>\<open>JSON.parse\<close> at the type the source gives its result,
    \<open>None\<close> when lines 88-89 throw (malformed text, or \<^verbatim>\<open>null\<close>);
  \<^item> \<open>flattenDiagnosticMessageText\<close>: the compiler's function of that name;
  \<^item> \<open>relative\<close>, \<open>urlToRequest\<close>: \<^verbatim>\<open>path\<close> and \<^verbatim>\<open>loader-utils\<close>.\<close>

record ('svc, 'm) Env =
  parseQuery :: "string \<Rightarrow> Options option"
  resolveConfig :: "WebPackLoader \<Rightarrow> Options \<Rightarrow> exn + Diagnostic list \<times> 'svc"
  fileNames :: "'svc \<Rightarrow> string list"
  getEmitOutput :: "'svc \<Rightarrow> string \<Rightarrow> compiler"
  JSON_parse :: "string \<Rightarrow> 'm SourceMap_scheme option"
  flattenDiagnosticMessageText :: "MessageText \<Rightarrow> string \<Rightarrow> string"
  relative :: "string \<Rightarrow> string \<Rightarrow> string"
  urlToRequest :: "string \<Rightarrow> string"

text \<open>\<^verbatim>\<open>interface LoaderInstance\<close> (lines 40-43) and the module's two variables
  (lines 48 and 53).\<close>

record 'svc LoaderInstance =
  files :: FilesMap
  service :: 'svc

record 'svc Globals =
  loaderInstances :: "string \<rightharpoonup> 'svc LoaderInstance"
  currentLoader :: "WebPackLoader option"

section \<open>Diagnostics\<close>

text \<open>Lines 259-269.\<close>

definition formatDiagnostic :: "('svc, 'm) Env \<Rightarrow> Diagnostic \<Rightarrow> string" where
  "formatDiagnostic env diagnostic =
     (let message = flattenDiagnosticMessageText env (messageText diagnostic) [CHR 0x0A]
      in case file' diagnostic of
           Some f \<Rightarrow>
             (let (line, character) = getLineAndCharacterOfPosition f (start diagnostic)
              in ''('' @ toString (line + 1) @ '','' @ toString (character + 1) @ ''): ''
                   @ message)
         | None \<Rightarrow> message)"

text \<open>\<^verbatim>\<open>class DiagosticError\<close> (lines 274-286); \<open>err_file\<close> stays undefined for a
  diagnostic without a file.\<close>

record DiagosticError =
  name :: string
  message :: string
  err_file :: "string option"
  diagnostic :: Diagnostic
  err_context :: string

definition new_DiagosticError ::
  "('svc, 'm) Env \<Rightarrow> Diagnostic \<Rightarrow> string \<Rightarrow> DiagosticError" where
  "new_DiagosticError env d ctx =
     \<lparr>name = ''DiagnosticError'',
      message = formatDiagnostic env d,
      err_file = (case file' d of
                    Some f \<Rightarrow> Some (urlToRequest env (relative env ctx (sourceFile_fileName f)))
                  | None \<Rightarrow> None),
      diagnostic = d,
      err_context = ctx\<rparr>"

text \<open>The \<^verbatim>\<open>emit\<close> plugin (lines 228-240). \<open>semantic\<close> and \<open>syntactic\<close> are what
  \<^verbatim>\<open>program.getSemanticDiagnostics()\<close> and \<^verbatim>\<open>program.getSyntacticDiagnostics()\<close>
  return.\<close>

record Compilation =
  warnings :: "DiagosticError list"
  errors :: "DiagosticError list"

definition emit ::
  "('svc, 'm) Env \<Rightarrow> WebPackLoader \<Rightarrow> Diagnostic list \<Rightarrow> Diagnostic list
     \<Rightarrow> Compilation \<Rightarrow> Compilation" where
  "emit env loader semantic syntactic compilation =
     (let c1 = fold (\<lambda>diagnostic c.
                  c\<lparr>warnings := warnings c
                     @ [new_DiagosticError env diagnostic (options_context loader)]\<rparr>)
                semantic compilation
      in fold (\<lambda>diagnostic c.
                  c\<lparr>errors := errors c
                     @ [new_DiagosticError env diagnostic (options_context loader)]\<rparr>)
           syntactic c1)"

section \<open>The language service host\<close>

text \<open>The state the host methods work on: the registry of the session and the
  module variable \<^verbatim>\<open>currentLoader\<close>.\<close>

record Host =
  host_files :: FilesMap
  host_currentLoader :: "WebPackLoader option"

text \<open>Lines 157-163.\<close>

definition getScriptFileNames :: "string list \<Rightarrow> FilesMap \<Rightarrow> string list" where
  "getScriptFileNames config_fileNames fs = config_fileNames @ map fst fs"

text \<open>Lines 164-166.\<close>

definition getScriptVersion :: "FilesMap \<Rightarrow> string \<Rightarrow> string option" where
  "getScriptVersion fs fileName =
     (case map_of fs fileName of
        None \<Rightarrow> None
      | Some f \<Rightarrow> Some (toString (version f)))"

text \<open>Lines 167-194. The result is the text of the snapshot, \<open>None\<close> for
  \<^verbatim>\<open>undefined\<close>.\<close>

definition getScriptSnapshot :: "Disk \<Rightarrow> string \<Rightarrow> Host \<Rightarrow> string option \<times> Host" where
  "getScriptSnapshot d fileName h =
     (let exists = fileExists d fileName;
          file = map_of (host_files h) fileName
      in if exists then
           (case (case file of
                    Some f \<Rightarrow> Some (f, host_files h)
                  | None \<Rightarrow>
                      (case readFileSync d fileName of
                         None \<Rightarrow> None
                       | Some t \<Rightarrow>
                           Some (\<lparr>version = 0, text' = t\<rparr>,
                                 AList.update fileName \<lparr>version = 0, text' = t\<rparr>
                                   (host_files h)))) of
              None \<Rightarrow> (None, h)
            | Some (f, fs) \<Rightarrow>
                (Some (text' f),
                 \<lparr>host_files = fs,
                  host_currentLoader =
                    (case host_currentLoader h of
                       Some l \<Rightarrow>
                         if isDefinition fileName then Some (addDependency fileName l)
                         else Some l
                     | None \<Rightarrow> None)\<rparr>))
         else (None, h\<lparr>host_files := AList.delete fileName (host_files h)\<rparr>))"

text \<open>The compiler at work: every question is answered by the host method.\<close>

primrec run :: "compiler \<Rightarrow> Disk \<Rightarrow> string list \<Rightarrow> Host \<Rightarrow> EmitOutput \<times> Host" where
  "run (Output out) d names h = (out, h)"
| "run (GetScriptFileNames k) d names h =
     run (k (getScriptFileNames names (host_files h))) d names h"
| "run (GetScriptVersion fileName k) d names h =
     run (k (getScriptVersion (host_files h) fileName)) d names h"
| "run (GetScriptSnapshot fileName k) d names h =
     (case getScriptSnapshot d fileName h of (snapshot, h') \<Rightarrow> run (k snapshot) d names h')"

text \<open>The \<^verbatim>\<open>watch-run\<close> plugin (lines 209-224) on the keys of \<^verbatim>\<open>mtimes\<close>.
  A read that throws ends the loop with what has been updated so far, and
  \<^verbatim>\<open>cb()\<close> is not reached; \<open>Inr ()\<close> is the call of \<^verbatim>\<open>cb()\<close>.\<close>

fun watch_run :: "Disk \<Rightarrow> string list \<Rightarrow> FilesMap \<Rightarrow> (exn + unit) \<times> FilesMap" where
  "watch_run d [] fs = (Inr (), fs)"
| "watch_run d (fileName # rest) fs =
     (case map_of fs fileName of
        Some f \<Rightarrow>
          if isDefinition fileName then
            (case readFileSync d fileName of
               None \<Rightarrow> (Inl FsError, fs)
             | Some t \<Rightarrow>
                 watch_run d rest
                   (AList.update fileName \<lparr>version = version f + 1, text' = t\<rparr> fs))
          else watch_run d rest fs
      | None \<Rightarrow> watch_run d rest fs)"

section \<open>Sessions and the loader\<close>

text \<open>\<^verbatim>\<open>createService\<close> (lines 139-243) as far as it acts on the loader: the
  configuration errors are emitted, formatted (line 154).\<close>

definition createService ::
  "('svc, 'm) Env \<Rightarrow> WebPackLoader \<Rightarrow> Options \<Rightarrow> exn + WebPackLoader \<times> 'svc" where
  "createService env loader options =
     (case resolveConfig env loader options of
        Inl e \<Rightarrow> Inl e
      | Inr (config_errors, svc) \<Rightarrow>
          Inr (loader\<lparr>emittedErrors := emittedErrors loader
                        @ map (formatDiagnostic env) config_errors\<rparr>, svc))"

text \<open>Lines 294-309. The result is the loader (changed by a creation), the instance and
  the table of instances.\<close>

definition session_id :: "WebPackLoader \<Rightarrow> string" where
  "session_id loader = options_context loader @ query loader"

definition getLoaderInstance ::
  "('svc, 'm) Env \<Rightarrow> WebPackLoader \<Rightarrow> (string \<rightharpoonup> 'svc LoaderInstance)
     \<Rightarrow> exn + WebPackLoader \<times> 'svc LoaderInstance \<times> (string \<rightharpoonup> 'svc LoaderInstance)" where
  "getLoaderInstance env loader instances =
     (let id = session_id loader
      in case parseQuery env (query loader) of
           None \<Rightarrow> Inl QueryError
         | Some q \<Rightarrow>
             (case instances id of
                Some instance \<Rightarrow> Inr (loader, instance, instances)
              | None \<Rightarrow>
                  (case createService env loader q of
                     Inl e \<Rightarrow> Inl e
                   | Inr (loader', svc) \<Rightarrow>
                       (let instance = \<lparr>files = [], service = svc\<rparr>
                        in Inr (loader', instance, instances(id \<mapsto> instance))))))"

text \<open>Lines 62-73 of \<^verbatim>\<open>loader\<close>: the text of the build target is stored and its
  version goes up.\<close>

definition loader_update :: "string \<Rightarrow> string \<Rightarrow> FilesMap \<Rightarrow> FilesMap" where
  "loader_update fileName content fs =
     (let file = (case map_of fs fileName of
                    None \<Rightarrow> \<lparr>version = 0, text' = ''''\<rparr>
                  | Some f \<Rightarrow> f)
      in AList.update fileName \<lparr>version = version file + 1, text' = content\<rparr> fs)"

text \<open>Lines 79-94 of \<^verbatim>\<open>loader\<close>: what becomes of the compiler's output. Reading
  \<^verbatim>\<open>.text\<close> of an array element that is not there throws a \<^verbatim>\<open>TypeError\<close>.\<close>

definition nth_opt :: "'a list \<Rightarrow> nat \<Rightarrow> 'a option" where
  "nth_opt xs i = (if i < length xs then Some (xs ! i) else None)"

definition loader_result ::
  "('svc, 'm) Env \<Rightarrow> WebPackLoader \<Rightarrow> string \<Rightarrow> EmitOutput \<Rightarrow> exn + 'm callback" where
  "loader_result env loader content output =
     (let fileName = resourcePath loader
      in if emitSkipped output then Inr (Failed (fileName @ '': File not found''))
         else
           (case nth_opt (outputFiles output) (if sourceMap loader then 1 else 0) of
              None \<Rightarrow> Inl TypeError
            | Some out \<Rightarrow>
                (let result = out_text out
                 in if sourceMap loader then
                      (case nth_opt (outputFiles output) 0 of
                         None \<Rightarrow> Inl TypeError
                       | Some out0 \<Rightarrow>
                           (case JSON_parse env (out_text out0) of
                              None \<Rightarrow> Inl SyntaxError
                            | Some sm \<Rightarrow>
                                Inr (Succeeded result
                                       (Some (sm\<lparr>sources := [fileName],
                                                 map_file := fileName,
                                                 sourcesContent := [content]\<rparr>)))))
                    else Inr (Succeeded result None))))"

text \<open>\<^verbatim>\<open>loader\<close> (lines 58-95). The result is the answer to webpack (or the exception
  that escapes), the loader context and the module's variables afterwards.\<close>

definition loader ::
  "('svc, 'm) Env \<Rightarrow> Disk \<Rightarrow> WebPackLoader \<Rightarrow> string \<Rightarrow> 'svc Globals
     \<Rightarrow> (exn + 'm callback) \<times> WebPackLoader \<times> 'svc Globals" where
  "loader env d this content g =
     (let fileName = resourcePath this
      in case getLoaderInstance env this (loaderInstances g) of
           Inl e \<Rightarrow> (Inl e, this, g)
         | Inr (this1, instance, instances) \<Rightarrow>
             (let this2 = this1\<lparr>cacheable := True\<rparr>;
                  fs = loader_update fileName content (files instance);
                  (output, h) =
                     run (getEmitOutput env (service instance) fileName) d
                       (fileNames env (service instance))
                       \<lparr>host_files = fs, host_currentLoader = Some this2\<rparr>;
                  this3 = (case host_currentLoader h of Some l \<Rightarrow> l | None \<Rightarrow> this2)
              in (loader_result env this3 content output,
                  this3,
                  \<lparr>loaderInstances =
                     instances(session_id this \<mapsto> instance\<lparr>files := host_files h\<rparr>),
                   currentLoader = None\<rparr>)))"

section \<open>Example inputs\<close>

text \<open>A small project for the concrete instances below: \<^verbatim>\<open>/p/a.ts\<close> and
  \<^verbatim>\<open>/p/b.d.ts\<close> are on disk, nothing else is; a compiler that asks for the version
  and the snapshot of the build target and reports emission as skipped when there is no
  snapshot; a flattening that joins the chain with the separator.\<close>

definition ex_disk :: Disk where
  "ex_disk =
     \<lparr>statSync = (\<lambda>f. if f = ''/p/a.ts'' \<or> f = ''/p/b.d.ts'' then Some True
                      else if f = ''/p'' then Some False else None),
      readFileSync = (\<lambda>f. if f = ''/p/a.ts'' then Some ''let x=1''
                          else if f = ''/p/b.d.ts'' then Some ''declare var b''
                          else None)\<rparr>"

definition ex_empty_disk :: Disk where
  "ex_empty_disk = \<lparr>statSync = (\<lambda>f. None), readFileSync = (\<lambda>f. None)\<rparr>"

fun ex_join :: "DiagnosticMessageChain \<Rightarrow> string \<Rightarrow> string" where
  "ex_join (DiagnosticMessageChain m None) newLine = m"
| "ex_join (DiagnosticMessageChain m (Some c)) newLine = m @ newLine @ ex_join c newLine"

definition ex_flatten :: "MessageText \<Rightarrow> string \<Rightarrow> string" where
  "ex_flatten m newLine = (case m of Plain s \<Rightarrow> s | Chained c \<Rightarrow> ex_join c newLine)"

definition ex_compiler :: "EmitOutput \<Rightarrow> string \<Rightarrow> compiler" where
  "ex_compiler out fileName =
     GetScriptVersion fileName (\<lambda>v.
       GetScriptSnapshot fileName (\<lambda>s.
         case s of
           None \<Rightarrow> Output \<lparr>outputFiles = [], emitSkipped = True\<rparr>
         | Some t \<Rightarrow> Output out))"

definition ex_env :: "EmitOutput \<Rightarrow> (unit, unit) Env" where
  "ex_env out =
     \<lparr>parseQuery = (\<lambda>q. Some \<lparr>compiler = None, configFile = None\<rparr>),
      resolveConfig = (\<lambda>l opts. Inr ([], ())),
      fileNames = (\<lambda>svc. []),
      getEmitOutput = (\<lambda>svc. ex_compiler out),
      JSON_parse = (\<lambda>s. if s = ''{}''
                          then Some \<lparr>sources = [], map_file = [], sourcesContent = []\<rparr>
                          else None),
      flattenDiagnosticMessageText = ex_flatten,
      relative = (\<lambda>from to. to),
      urlToRequest = (\<lambda>u. u)\<rparr>"

definition ex_loader :: "bool \<Rightarrow> string \<Rightarrow> string \<Rightarrow> WebPackLoader" where
  "ex_loader sm q path =
     \<lparr>query = q, resourcePath = path, context' = ''/p'', sourceMap = sm,
      options_context = ''/p'', cacheable = False, dependencies = [], emittedErrors = []\<rparr>"

definition ex_globals :: "unit Globals" where
  "ex_globals = \<lparr>loaderInstances = Map.empty, currentLoader = None\<rparr>"

definition ex_globals_b :: "unit Globals" where
  "ex_globals_b =
     \<lparr>loaderInstances =
        [''/p?b'' \<mapsto> \<lparr>files = [(''/p/a.ts'', \<lparr>version = 1, text' = ''let y=2''\<rparr>)],
                       service = ()\<rparr>],
      currentLoader = None\<rparr>"

definition ex_output :: EmitOutput where
  "ex_output =
     \<lparr>outputFiles = [\<lparr>out_name = ''/p/a.js.map'', out_text = ''{}''\<rparr>,
                      \<lparr>out_name = ''/p/a.js'', out_text = ''var x = 1''\<rparr>],
      emitSkipped = False\<rparr>"

definition ex_output_plain :: EmitOutput where
  "ex_output_plain =
     \<lparr>outputFiles = [\<lparr>out_name = ''/p/a.js'', out_text = ''var x = 1''\<rparr>],
      emitSkipped = False\<rparr>"

definition ex_sourceFile :: SourceFile where
  "ex_sourceFile =
     \<lparr>sourceFile_fileName = ''/p/a.ts'',
      getLineAndCharacterOfPosition = (\<lambda>pos. (pos div 10, pos mod 10))\<rparr>"

definition ex_semantic :: Diagnostic where
  "ex_semantic =
     \<lparr>file' = Some ex_sourceFile, start = 24,
      messageText =
        Chained (DiagnosticMessageChain ''Type A is not assignable to type B.''
                   (Some (DiagnosticMessageChain ''Property x is missing.'' None)))\<rparr>"

definition ex_syntactic :: Diagnostic where
  "ex_syntactic = \<lparr>file' = None, start = 0, messageText = Plain ''Unexpected token.''\<rparr>"

lemmas ex_defs = ex_env_def ex_compiler_def ex_loader_def ex_globals_def ex_globals_b_def
  ex_output_def ex_output_plain_def ex_disk_def ex_empty_disk_def

lemmas model_defs = loader_def getLoaderInstance_def createService_def session_id_def
  loader_update_def getScriptSnapshot_def getScriptVersion_def fileExists_def loader_result_def
  nth_opt_def addDependency_def isDefinition_def Let_def

section \<open>The registry as an association list\<close>

lemma update_absent: "map_of fs p = None \<Longrightarrow> AList.update p v fs = fs @ [(p, v)]"
  by (induction fs) (auto split: if_splits)

lemma delete_absent: "map_of fs p = None \<Longrightarrow> AList.delete p fs = fs"
  by (induction fs) (auto split: if_splits)

lemma filter_absent: "map_of fs p = None \<Longrightarrow> filter (\<lambda>e. fst e = p) fs = []"
  by (induction fs) (auto split: if_splits)

text \<open>A path has at most one record: no operation on the registry duplicates a key.\<close>

lemma distinct_loader_update:
  "distinct (map fst fs) \<Longrightarrow> distinct (map fst (loader_update p t fs))"
  by (simp add: loader_update_def distinct_update)

lemma distinct_getScriptSnapshot:
  "distinct (map fst (host_files h)) \<Longrightarrow>
     distinct (map fst (host_files (snd (getScriptSnapshot d p h))))"
  by (auto simp: getScriptSnapshot_def Let_def distinct_update distinct_delete
           split: option.splits)

section \<open>The compile request's update of the registry\<close>

lemma loader_update_lookup:
  "map_of (loader_update p t fs) =
     (map_of fs)(p \<mapsto> \<lparr>version = (case map_of fs p of None \<Rightarrow> 0 | Some f \<Rightarrow> version f) + 1,
                       text' = t\<rparr>)"
  by (simp add: loader_update_def update_conv' split: option.splits)

text \<open>\<open>n + 1\<close> requests for the same path, with the same text every time, raise the
  version by \<open>n + 1\<close>.\<close>

lemma loader_update_repeat:
  "map_of ((loader_update p t ^^ Suc n) fs) p =
     Some \<lparr>version = (case map_of fs p of None \<Rightarrow> 0 | Some f \<Rightarrow> version f) + Suc n,
           text' = t\<rparr>"
proof (induction n)
  case 0
  show ?case by (simp add: loader_update_lookup)
next
  case (Suc n)
  have "map_of ((loader_update p t ^^ Suc (Suc n)) fs) p =
          map_of (loader_update p t ((loader_update p t ^^ Suc n) fs)) p"
    by simp
  also have "\<dots> = Some \<lparr>version = (case map_of fs p of None \<Rightarrow> 0 | Some f \<Rightarrow> version f)
                                  + Suc n + 1, text' = t\<rparr>"
    unfolding loader_update_lookup using Suc.IH by simp
  finally show ?case by simp
qed



section \<open>The on-demand loader\<close>

lemma getScriptSnapshot_hit:
  "fileExists d p \<Longrightarrow> map_of (host_files h) p = Some f \<Longrightarrow>
     fst (getScriptSnapshot d p h) = Some (text' f)
     \<and> host_files (snd (getScriptSnapshot d p h)) = host_files h"
  by (simp add: getScriptSnapshot_def)

lemma getScriptSnapshot_load:
  "fileExists d p \<Longrightarrow> map_of (host_files h) p = None \<Longrightarrow> readFileSync d p = Some t \<Longrightarrow>
     fst (getScriptSnapshot d p h) = Some t
     \<and> host_files (snd (getScriptSnapshot d p h))
         = host_files h @ [(p, \<lparr>version = 0, text' = t\<rparr>)]"
  by (simp add: getScriptSnapshot_def update_absent)

text \<open>A file that is there but cannot be read: the \<^verbatim>\<open>catch\<close> of line 180.\<close>

lemma getScriptSnapshot_unreadable:
  "fileExists d p \<Longrightarrow> map_of (host_files h) p = None \<Longrightarrow> readFileSync d p = None \<Longrightarrow>
     getScriptSnapshot d p h = (None, h)"
  by (simp add: getScriptSnapshot_def)

lemma getScriptSnapshot_gone:
  "\<not> fileExists d p \<Longrightarrow>
     getScriptSnapshot d p h = (None, h\<lparr>host_files := AList.delete p (host_files h)\<rparr>)"
  by (simp add: getScriptSnapshot_def)

text \<open>The dependency edge: a declaration file that resolves while a request is in flight
  is added to the dependencies of that request's loader.\<close>

lemma getScriptSnapshot_dependency:
  "fileExists d p \<Longrightarrow> map_of (host_files h) p = Some f \<Longrightarrow> host_currentLoader h = Some l \<Longrightarrow>
     host_currentLoader (snd (getScriptSnapshot d p h))
       = Some (if isDefinition p then l\<lparr>dependencies := dependencies l @ [p]\<rparr> else l)"
  by (simp add: getScriptSnapshot_def addDependency_def)

text \<open>What a resolution does to the record of any path \<open>q\<close>: a record that is there
  before and after is the same record, and a record of a file on disk stays.\<close>

lemma getScriptSnapshot_same_record:
  "map_of (host_files h) q = Some f \<Longrightarrow>
   map_of (host_files (snd (getScriptSnapshot d p h))) q = Some f' \<Longrightarrow> f' = f"
  by (auto simp: getScriptSnapshot_def Let_def update_conv' delete_conv'
           split: if_splits option.splits)

lemma getScriptSnapshot_keeps_record:
  "fileExists d q \<Longrightarrow> map_of (host_files h) q = Some f \<Longrightarrow>
     map_of (host_files (snd (getScriptSnapshot d p h))) q = Some f"
  by (auto simp: getScriptSnapshot_def Let_def update_conv' delete_conv'
           split: if_splits option.splits)

lemma getScriptSnapshot_stays_away:
  "\<not> fileExists d q \<Longrightarrow> map_of (host_files h) q = None \<Longrightarrow>
     map_of (host_files (snd (getScriptSnapshot d p h))) q = None"
  by (auto simp: getScriptSnapshot_def Let_def update_conv' delete_conv'
           split: if_splits option.splits)

lemma run_stays_away:
  "\<not> fileExists d q \<Longrightarrow> map_of (host_files h) q = None \<Longrightarrow>
     map_of (host_files (snd (run c d names h))) q = None"
proof (induction c arbitrary: h)
  case (Output out)
  then show ?case by simp
next
  case (GetScriptFileNames k)
  from GetScriptFileNames.IH [OF rangeI] GetScriptFileNames.prems show ?case by simp
next
  case (GetScriptVersion p k)
  from GetScriptVersion.IH [OF rangeI] GetScriptVersion.prems show ?case by simp
next
  case (GetScriptSnapshot p k)
  obtain s h' where g: "getScriptSnapshot d p h = (s, h')"
    by (cases "getScriptSnapshot d p h")
  from getScriptSnapshot_stays_away [OF GetScriptSnapshot.prems, of p] g
  have "map_of (host_files h') q = None" by simp
  from GetScriptSnapshot.IH [OF rangeI GetScriptSnapshot.prems(1) this] g
  show ?case by simp
qed

lemma run_same_record:
  "map_of (host_files h) q = Some f \<Longrightarrow>
   map_of (host_files (snd (run c d names h))) q = Some f' \<Longrightarrow> f' = f"
proof (induction c arbitrary: h)
  case (Output out)
  then show ?case by simp
next
  case (GetScriptFileNames k)
  from GetScriptFileNames.IH [OF rangeI] GetScriptFileNames.prems show ?case by simp
next
  case (GetScriptVersion p k)
  from GetScriptVersion.IH [OF rangeI] GetScriptVersion.prems show ?case by simp
next
  case (GetScriptSnapshot p k)
  obtain s h' where g: "getScriptSnapshot d p h = (s, h')"
    by (cases "getScriptSnapshot d p h")
  have r: "map_of (host_files (snd (run (k s) d names h'))) q = Some f'"
    using GetScriptSnapshot.prems(2) g by simp
  show ?case
  proof (cases "map_of (host_files h') q")
    case None
    have gone: "\<not> fileExists d q"
      using None GetScriptSnapshot.prems(1) g getScriptSnapshot_keeps_record [of d q h f p]
      by auto
    from run_stays_away [OF gone None, of "k s" names] r show ?thesis by simp
  next
    case (Some f1)
    with GetScriptSnapshot.prems(1) g getScriptSnapshot_same_record [of h q f d p f1]
    have "f1 = f" by simp
    with Some GetScriptSnapshot.IH [OF rangeI _ r] show ?thesis by simp
  qed
qed

lemma run_keeps_record:
  "fileExists d q \<Longrightarrow> map_of (host_files h) q = Some f \<Longrightarrow>
     map_of (host_files (snd (run c d names h))) q = Some f"
proof (induction c arbitrary: h)
  case (Output out)
  then show ?case by simp
next
  case (GetScriptFileNames k)
  from GetScriptFileNames.IH [OF rangeI] GetScriptFileNames.prems show ?case by simp
next
  case (GetScriptVersion p k)
  from GetScriptVersion.IH [OF rangeI] GetScriptVersion.prems show ?case by simp
next
  case (GetScriptSnapshot p k)
  obtain s h' where g: "getScriptSnapshot d p h = (s, h')"
    by (cases "getScriptSnapshot d p h")
  from getScriptSnapshot_keeps_record [OF GetScriptSnapshot.prems, of p] g
  have "map_of (host_files h') q = Some f" by simp
  from GetScriptSnapshot.IH [OF rangeI GetScriptSnapshot.prems(1) this] g
  show ?case by simp
qed

text \<open>C2. As stated the claim fails: line 168 asks the file system first, and a registered
  path that is no file on disk is reported absent and dropped from the registry (line 193).
  What holds: a registered path that passes the existence check resolves to the text of its
  record, whatever \<^verbatim>\<open>readFileSync\<close> would return, and the registry stays as it is; a path
  that fails the check resolves to nothing and loses its record.\<close>

theorem getScriptSnapshot_registered:
  "(fileExists d p \<and> map_of (host_files h) p = Some f \<longrightarrow>
      fst (getScriptSnapshot d p h) = Some (text' f)
      \<and> host_files (snd (getScriptSnapshot d p h)) = host_files h
      \<and> getScriptSnapshot (d\<lparr>readFileSync := r\<rparr>) p h = getScriptSnapshot d p h)
   \<and> (\<not> fileExists d p \<longrightarrow>
      fst (getScriptSnapshot d p h) = None
      \<and> host_files (snd (getScriptSnapshot d p h)) = AList.delete p (host_files h))"
  by (simp add: getScriptSnapshot_def fileExists_def)

theorem getScriptSnapshot_registered_witness:
  "fst (getScriptSnapshot ex_disk ''/p/a.ts''
          \<lparr>host_files = [(''/p/a.ts'', \<lparr>version = 2, text' = ''let x=2''\<rparr>)],
           host_currentLoader = None\<rparr>) = Some ''let x=2''"
proof -
  have h1: "fileExists ex_disk ''/p/a.ts''"
    by (simp add: fileExists_def ex_disk_def)
  have h2: "map_of (host_files \<lparr>host_files = [(''/p/a.ts'', \<lparr>version = 2, text' = ''let x=2''\<rparr>)],
                              host_currentLoader = None\<rparr>) ''/p/a.ts''
              = Some \<lparr>version = 2, text' = ''let x=2''\<rparr>"
    by simp
  show ?thesis
    using h1 h2
      getScriptSnapshot_registered
        [of ex_disk "''/p/a.ts''"
            "\<lparr>host_files = [(''/p/a.ts'', \<lparr>version = 2, text' = ''let x=2''\<rparr>)],
              host_currentLoader = None\<rparr>"
            "\<lparr>version = 2, text' = ''let x=2''\<rparr>"]
    by simp
qed

theorem getScriptSnapshot_registered_counterexample:
  "map_of [(''/p/a.ts'', \<lparr>version = 1, text' = ''let x=1''\<rparr>)] ''/p/a.ts''
     = Some \<lparr>version = 1, text' = ''let x=1''\<rparr>
   \<and> getScriptSnapshot ex_empty_disk ''/p/a.ts''
        \<lparr>host_files = [(''/p/a.ts'', \<lparr>version = 1, text' = ''let x=1''\<rparr>)],
         host_currentLoader = None\<rparr>
     = (None, \<lparr>host_files = [], host_currentLoader = None\<rparr>)"
  by (simp add: getScriptSnapshot_def fileExists_def ex_empty_disk_def)

text \<open>C4. A path that fails the existence check resolves to \<^verbatim>\<open>undefined\<close>, not to an
  empty text, and afterwards the registry holds nothing under it; the other paths keep their
  records, and when the path had no record the state is unchanged.\<close>

theorem getScriptSnapshot_absent:
  "\<not> fileExists d p \<Longrightarrow>
     fst (getScriptSnapshot d p h) = None
     \<and> fst (getScriptSnapshot d p h) \<noteq> Some []
     \<and> map_of (host_files (snd (getScriptSnapshot d p h))) p = None
     \<and> (\<forall>q. q \<noteq> p \<longrightarrow>
          map_of (host_files (snd (getScriptSnapshot d p h))) q = map_of (host_files h) q)
     \<and> (map_of (host_files h) p = None \<longrightarrow> snd (getScriptSnapshot d p h) = h)"
  by (simp add: getScriptSnapshot_gone delete_conv' delete_absent)

theorem getScriptSnapshot_absent_witness:
  "fst (getScriptSnapshot ex_disk ''/p/missing.d.ts''
          \<lparr>host_files = [(''/p/a.ts'', \<lparr>version = 1, text' = ''let x=1''\<rparr>)],
           host_currentLoader = None\<rparr>) = None
   \<and> snd (getScriptSnapshot ex_disk ''/p/missing.d.ts''
          \<lparr>host_files = [(''/p/a.ts'', \<lparr>version = 1, text' = ''let x=1''\<rparr>)],
           host_currentLoader = None\<rparr>)
     = \<lparr>host_files = [(''/p/a.ts'', \<lparr>version = 1, text' = ''let x=1''\<rparr>)],
        host_currentLoader = None\<rparr>"
proof -
  have h1: "\<not> fileExists ex_disk ''/p/missing.d.ts''"
    by (simp add: fileExists_def ex_disk_def)
  show ?thesis
    using getScriptSnapshot_absent [OF h1,
        of "\<lparr>host_files = [(''/p/a.ts'', \<lparr>version = 1, text' = ''let x=1''\<rparr>)],
              host_currentLoader = None\<rparr>"]
    by simp
qed

text \<open>C5. A path that has no record, passes the existence check and can be read: the first
  resolution returns the text read and appends one record at version 0; a second resolution
  (on any disk on which the path still passes the check, whatever could be read there) returns
  the same text from the record and leaves the registry as it is, with exactly one record
  for the path.\<close>

theorem getScriptSnapshot_twice:
  assumes "map_of (host_files h) p = None"
    and "fileExists d p"
    and "readFileSync d p = Some t"
    and "fileExists d' p"
  shows "fst (getScriptSnapshot d p h) = Some t
    \<and> fst (getScriptSnapshot d' p (snd (getScriptSnapshot d p h))) = Some t
    \<and> host_files (snd (getScriptSnapshot d p h))
        = host_files h @ [(p, \<lparr>version = 0, text' = t\<rparr>)]
    \<and> host_files (snd (getScriptSnapshot d' p (snd (getScriptSnapshot d p h))))
        = host_files (snd (getScriptSnapshot d p h))
    \<and> length (filter (\<lambda>e. fst e = p)
                (host_files (snd (getScriptSnapshot d' p (snd (getScriptSnapshot d p h)))))) = 1"
proof -
  let ?h1 = "snd (getScriptSnapshot d p h)"
  from getScriptSnapshot_load [OF assms(2) assms(1) assms(3)]
  have 1: "fst (getScriptSnapshot d p h) = Some t"
    and f1: "host_files ?h1 = host_files h @ [(p, \<lparr>version = 0, text' = t\<rparr>)]"
    by simp_all
  have "map_of (host_files ?h1) p = Some \<lparr>version = 0, text' = t\<rparr>"
    using assms(1) by (simp add: f1 map_add_Some_iff)
  from getScriptSnapshot_hit [OF assms(4) this]
  have 2: "fst (getScriptSnapshot d' p ?h1) = Some t"
    and f2: "host_files (snd (getScriptSnapshot d' p ?h1)) = host_files ?h1"
    by simp_all
  have "length (filter (\<lambda>e. fst e = p) (host_files ?h1)) = 1"
    using assms(1) by (simp add: f1 filter_absent)
  with 1 2 f1 f2 show ?thesis by simp
qed

theorem getScriptSnapshot_twice_witness:
  "fst (getScriptSnapshot ex_disk ''/p/b.d.ts''
          \<lparr>host_files = [], host_currentLoader = None\<rparr>) = Some ''declare var b''
   \<and> fst (getScriptSnapshot ex_disk ''/p/b.d.ts''
            (snd (getScriptSnapshot ex_disk ''/p/b.d.ts''
                    \<lparr>host_files = [], host_currentLoader = None\<rparr>))) = Some ''declare var b''
   \<and> host_files (snd (getScriptSnapshot ex_disk ''/p/b.d.ts''
            (snd (getScriptSnapshot ex_disk ''/p/b.d.ts''
                    \<lparr>host_files = [], host_currentLoader = None\<rparr>))))
     = [(''/p/b.d.ts'', \<lparr>version = 0, text' = ''declare var b''\<rparr>)]"
proof -
  have h1: "map_of (host_files \<lparr>host_files = [], host_currentLoader = None\<rparr>) ''/p/b.d.ts'' = None"
    by simp
  have h2: "fileExists ex_disk ''/p/b.d.ts''"
    by (simp add: fileExists_def ex_disk_def)
  have h3: "readFileSync ex_disk ''/p/b.d.ts'' = Some ''declare var b''"
    by (simp add: ex_disk_def)
  show ?thesis
    using getScriptSnapshot_twice [OF h1 h2 h3 h2] by simp
qed

section \<open>The watch cycle\<close>

text \<open>The handler only ever overwrites records of keys that are there: the keys and their
  order stay.\<close>

lemma watch_run_keys: "map fst (snd (watch_run d ks fs)) = map fst fs"
proof (induction ks arbitrary: fs)
  case Nil
  show ?case by simp
next
  case (Cons k ks)
  have u: "\<And>f v. map_of fs k = Some f \<Longrightarrow> map fst (AList.update k v fs) = map fst fs"
    by (simp add: update_keys map_of_eq_None_iff[symmetric] del: map_of_eq_None_iff)
  show ?case using Cons.IH u
    by (auto split: option.splits)
qed


text \<open>The handler never lowers a version, whether it completes or not.\<close>

lemma watch_run_version_mono:
  "map_of fs q = Some f \<Longrightarrow>
     \<exists>f'. map_of (snd (watch_run d ks fs)) q = Some f' \<and> version f \<le> version f'"
proof (induction ks arbitrary: fs f)
  case Nil
  then show ?case by simp
next
  case (Cons k ks)
  show ?case
  proof (cases "map_of fs k \<noteq> None \<and> isDefinition k \<and> readFileSync d k \<noteq> None")
    case False
    then have "watch_run d (k # ks) fs = watch_run d ks fs
               \<or> watch_run d (k # ks) fs = (Inl FsError, fs)"
      by (auto split: option.splits)
    with Cons show ?thesis by auto
  next
    case True
    then obtain g t where g: "map_of fs k = Some g" and dk: "isDefinition k"
      and t: "readFileSync d k = Some t" by auto
    let ?fs1 = "AList.update k \<lparr>version = version g + 1, text' = t\<rparr> fs"
    have step: "watch_run d (k # ks) fs = watch_run d ks ?fs1"
      using g dk t by simp
    obtain f1 where f1: "map_of ?fs1 q = Some f1" "version f \<le> version f1"
      using Cons.prems g by (cases "q = k") (auto simp: update_conv')
    from Cons.IH [OF f1(1)] f1(2) show ?thesis
      unfolding step by (meson le_trans)
  qed
qed





section \<open>Formatting and routing of diagnostics\<close>

lemma toString_examples:
  "toString 0 = ''0''" "toString 9 = ''9''" "toString 10 = ''10''" "toString 1203 = ''1203''"
  by (simp_all add: toString.simps)

lemma toString_digits: "set (toString n) \<subseteq> set ''0123456789''"
proof (induction n rule: toString.induct)
  case (1 n)
  have d: "\<And>k. k < 10 \<Longrightarrow> ''0123456789'' ! k \<in> set ''0123456789''"
    by (rule nth_mem) simp
  show ?case
  proof (cases "n < 10")
    case True
    with d [of n] show ?thesis by (subst toString.simps) simp
  next
    case False
    have "n mod 10 < 10" by simp
    from d [OF this] 1 False show ?thesis by (subst toString.simps) simp
  qed
qed

text \<open>C7. A diagnostic with a source file whose start offset the file maps to the 0-based
  pair (line, character) is formatted as \<^verbatim>\<open>(L,C): message\<close> with \<open>L = line + 1\<close> and
  \<open>C = character + 1\<close> in decimal; a diagnostic without a file is formatted as the message
  alone. The message is in both cases what the compiler's flattening function returns for the
  message text with the newline character as separator.\<close>

theorem formatDiagnostic_format:
  "(\<forall>f line character L C.
      file' dg = Some f \<and> getLineAndCharacterOfPosition f (start dg) = (line, character)
      \<and> L = line + 1 \<and> C = character + 1 \<longrightarrow>
      formatDiagnostic env dg =
        ''('' @ toString L @ '','' @ toString C @ ''): ''
          @ flattenDiagnosticMessageText env (messageText dg) [CHR 0x0A])
   \<and> (file' dg = None \<longrightarrow>
      formatDiagnostic env dg = flattenDiagnosticMessageText env (messageText dg) [CHR 0x0A])"
  by (simp add: formatDiagnostic_def)

theorem formatDiagnostic_format_witness:
  "formatDiagnostic (ex_env ex_output) ex_semantic
     = ''(3,5): Type A is not assignable to type B.'' @ [CHR 0x0A] @ ''Property x is missing.''
   \<and> formatDiagnostic (ex_env ex_output) ex_syntactic = ''Unexpected token.''"
proof -
  have h1: "file' ex_semantic = Some ex_sourceFile
            \<and> getLineAndCharacterOfPosition ex_sourceFile (start ex_semantic) = (2, 4)
            \<and> (3::nat) = 2 + 1 \<and> (5::nat) = 4 + 1"
    by (simp add: ex_semantic_def ex_sourceFile_def)
  have h2: "file' ex_syntactic = None"
    by (simp add: ex_syntactic_def)
  from h1 formatDiagnostic_format [where dg = ex_semantic and env = "ex_env ex_output"]
  have "formatDiagnostic (ex_env ex_output) ex_semantic =
          ''('' @ toString 3 @ '','' @ toString 5 @ ''): ''
            @ flattenDiagnosticMessageText (ex_env ex_output) (messageText ex_semantic) [CHR 0x0A]"
    by blast
  then have 1: "formatDiagnostic (ex_env ex_output) ex_semantic
     = ''(3,5): Type A is not assignable to type B.'' @ [CHR 0x0A] @ ''Property x is missing.''"
    by (simp add: toString.simps ex_env_def ex_flatten_def ex_semantic_def)
  from h2 formatDiagnostic_format [where dg = ex_syntactic and env = "ex_env ex_output"]
  have "formatDiagnostic (ex_env ex_output) ex_syntactic =
          flattenDiagnosticMessageText (ex_env ex_output) (messageText ex_syntactic) [CHR 0x0A]"
    by blast
  then have 2: "formatDiagnostic (ex_env ex_output) ex_syntactic = ''Unexpected token.''"
    by (simp add: ex_env_def ex_flatten_def ex_syntactic_def)
  from 1 2 show ?thesis by blast
qed

lemma fold_warnings:
  "fold (\<lambda>x c. c\<lparr>warnings := warnings c @ [g x]\<rparr>) xs c = c\<lparr>warnings := warnings c @ map g xs\<rparr>"
  by (induction xs arbitrary: c) simp_all

lemma fold_errors:
  "fold (\<lambda>x c. c\<lparr>errors := errors c @ [g x]\<rparr>) xs c = c\<lparr>errors := errors c @ map g xs\<rparr>"
  by (induction xs arbitrary: c) simp_all

lemma diagnostic_new_DiagosticError: "diagnostic (new_DiagosticError env x ctx) = x"
  by (simp add: new_DiagosticError_def)

lemma message_new_DiagosticError:
  "message (new_DiagosticError env x ctx) = formatDiagnostic env x"
  by (simp add: new_DiagosticError_def)

text \<open>C8. The \<^verbatim>\<open>emit\<close> handler appends to the host's warnings one error object per
  semantic diagnostic, in order, and nothing else, and to the host's errors one error object
  per syntactic diagnostic, in order, and nothing else: the diagnostics delivered as warnings
  are exactly the semantic ones and those delivered as errors exactly the syntactic
  ones.\<close>

theorem emit_routes_diagnostics:
  "warnings (emit env l semantic syntactic c)
     = warnings c @ map (\<lambda>x. new_DiagosticError env x (options_context l)) semantic
   \<and> errors (emit env l semantic syntactic c)
     = errors c @ map (\<lambda>x. new_DiagosticError env x (options_context l)) syntactic
   \<and> map diagnostic (warnings (emit env l semantic syntactic c))
     = map diagnostic (warnings c) @ semantic
   \<and> map diagnostic (errors (emit env l semantic syntactic c))
     = map diagnostic (errors c) @ syntactic"
  by (simp add: emit_def fold_warnings fold_errors comp_def diagnostic_new_DiagosticError)

theorem emit_routes_diagnostics_witness:
  "map diagnostic (warnings (emit (ex_env ex_output) (ex_loader False ''?a'' ''/p/a.ts'')
                               [ex_semantic] [ex_syntactic] \<lparr>warnings = [], errors = []\<rparr>))
     = [ex_semantic]
   \<and> map diagnostic (errors (emit (ex_env ex_output) (ex_loader False ''?a'' ''/p/a.ts'')
                               [ex_semantic] [ex_syntactic] \<lparr>warnings = [], errors = []\<rparr>))
     = [ex_syntactic]"
  using emit_routes_diagnostics
    [of "ex_env ex_output" "ex_loader False ''?a'' ''/p/a.ts''" "[ex_semantic]" "[ex_syntactic]"
        "\<lparr>warnings = [], errors = []\<rparr>"]
  by (simp add: diagnostic_new_DiagosticError)

section \<open>Sessions\<close>

lemma getLoaderInstance_loader:
  "getLoaderInstance env l insts = Inr (l', inst, insts') \<Longrightarrow>
     resourcePath l' = resourcePath l \<and> sourceMap l' = sourceMap l"
  by (auto simp: getLoaderInstance_def createService_def Let_def
           split: option.splits sum.splits)





section \<open>The compile request\<close>

text \<open>The host methods change the dependencies of the loader in flight and nothing
  else of it.\<close>

lemma getScriptSnapshot_currentLoader:
  "host_currentLoader h = Some l \<Longrightarrow>
     \<exists>l'. host_currentLoader (snd (getScriptSnapshot d p h)) = Some l'
        \<and> resourcePath l' = resourcePath l \<and> sourceMap l' = sourceMap l"
  by (auto simp: getScriptSnapshot_def Let_def addDependency_def split: option.splits)

lemma run_currentLoader:
  "host_currentLoader h = Some l \<Longrightarrow>
     \<exists>l'. host_currentLoader (snd (run c d names h)) = Some l'
        \<and> resourcePath l' = resourcePath l \<and> sourceMap l' = sourceMap l"
proof (induction c arbitrary: h l)
  case (Output out)
  then show ?case by simp
next
  case (GetScriptFileNames k)
  then show ?case by simp
next
  case (GetScriptVersion p k)
  then show ?case by simp
next
  case (GetScriptSnapshot p k)
  obtain s h' where g: "getScriptSnapshot d p h = (s, h')"
    by (cases "getScriptSnapshot d p h")
  from getScriptSnapshot_currentLoader [OF GetScriptSnapshot.prems, of d p] g
  obtain l1 where l1: "host_currentLoader h' = Some l1"
    "resourcePath l1 = resourcePath l" "sourceMap l1 = sourceMap l"
    by auto
  have "k s \<in> range k" by simp
  from GetScriptSnapshot.IH [OF this l1(1)] l1 g show ?case by auto
qed

lemma loader_Inl:
  "getLoaderInstance env this (loaderInstances g) = Inl e \<Longrightarrow>
     loader env d this content g = (Inl e, this, g)"
  by (simp add: loader_def)

lemma loader_Inr:
  assumes "getLoaderInstance env this (loaderInstances g) = Inr (this1, inst, insts)"
    and "run (getEmitOutput env (service inst) (resourcePath this)) d
           (fileNames env (service inst))
           \<lparr>host_files = loader_update (resourcePath this) content (files inst),
            host_currentLoader = Some (this1\<lparr>cacheable := True\<rparr>)\<rparr> = (output, h)"
  shows "\<exists>this3. resourcePath this3 = resourcePath this \<and> sourceMap this3 = sourceMap this \<and>
           loader env d this content g =
             (loader_result env this3 content output, this3,
              \<lparr>loaderInstances = insts(session_id this \<mapsto> inst\<lparr>files := host_files h\<rparr>),
               currentLoader = None\<rparr>)"
proof -
  let ?h0 = "\<lparr>host_files = loader_update (resourcePath this) content (files inst),
            host_currentLoader = Some (this1\<lparr>cacheable := True\<rparr>)\<rparr>"
  have "host_currentLoader ?h0 = Some (this1\<lparr>cacheable := True\<rparr>)" by simp
  from run_currentLoader [OF this, of "getEmitOutput env (service inst) (resourcePath this)" d
      "fileNames env (service inst)"]
  obtain l' where l': "host_currentLoader h = Some l'"
    "resourcePath l' = resourcePath this1" "sourceMap l' = sourceMap this1"
    using assms(2) by auto
  from getLoaderInstance_loader [OF assms(1)] l'
  have "resourcePath l' = resourcePath this" "sourceMap l' = sourceMap this" by simp_all
  moreover have "loader env d this content g =
             (loader_result env l' content output, l',
              \<lparr>loaderInstances = insts(session_id this \<mapsto> inst\<lparr>files := host_files h\<rparr>),
               currentLoader = None\<rparr>)"
    using assms l'(1) by (simp add: loader_def)
  ultimately show ?thesis by blast
qed

text \<open>A request for a build target that is a file on disk leaves the target's record
  with the request's text and a version one above the one before (1 for a first request),
  whatever the compiler asks the host.\<close>

lemma loader_stores_target:
  assumes "getLoaderInstance env this (loaderInstances g) = Inr (this1, inst, insts)"
    and "fileExists d (resourcePath this)"
  shows "\<exists>inst'. loaderInstances (snd (snd (loader env d this content g))) (session_id this)
                   = Some inst'
           \<and> map_of (files inst') (resourcePath this)
               = Some \<lparr>version = (case map_of (files inst) (resourcePath this) of
                                       None \<Rightarrow> 0 | Some f \<Rightarrow> version f) + 1,
                       text' = content\<rparr>"
proof -
  let ?h0 = "\<lparr>host_files = loader_update (resourcePath this) content (files inst),
            host_currentLoader = Some (this1\<lparr>cacheable := True\<rparr>)\<rparr>"
  let ?c = "getEmitOutput env (service inst) (resourcePath this)"
  let ?r = "\<lparr>version = (case map_of (files inst) (resourcePath this) of
                            None \<Rightarrow> 0 | Some f \<Rightarrow> version f) + 1,
            text' = content\<rparr>"
  obtain out' h where rn: "run ?c d (fileNames env (service inst)) ?h0 = (out', h)"
    by (cases "run ?c d (fileNames env (service inst)) ?h0")
  have "map_of (host_files ?h0) (resourcePath this) = Some ?r"
    by (simp add: loader_update_lookup)
  from run_keeps_record [OF assms(2) this, of ?c "fileNames env (service inst)"] rn
  have "map_of (host_files h) (resourcePath this) = Some ?r" by simp
  moreover from loader_Inr [OF assms(1) rn]
  have "loaderInstances (snd (snd (loader env d this content g))) (session_id this)
          = Some (inst\<lparr>files := host_files h\<rparr>)"
    by auto
  ultimately show ?thesis by simp
qed




lemma loader_result_sourceMap:
  "sourceMap l \<Longrightarrow> loader_result env l content output = Inr (Succeeded result smo) \<Longrightarrow>
     \<exists>sm. smo = Some sm \<and> sources sm = [resourcePath l] \<and> map_file sm = resourcePath l
          \<and> sourcesContent sm = [content]"
  by (auto simp: loader_result_def Let_def split: if_splits option.splits)

text \<open>An output list without the entry the loader reads, and a source map text that does
  not parse, end the request with an exception.\<close>

lemma loader_result_no_output:
  "\<not> emitSkipped output \<Longrightarrow>
   nth_opt (outputFiles output) (if sourceMap l then 1 else 0) = None \<Longrightarrow>
     loader_result env l content output = Inl TypeError"
  by (simp add: loader_result_def)




text \<open>C10. A request with source maps enabled that succeeds hands webpack a source map
  whose \<^verbatim>\<open>sources\<close> is the list of the build target's path alone, whose \<^verbatim>\<open>file\<close> is
  that path and whose \<^verbatim>\<open>sourcesContent\<close> is the list of the request's input text alone,
  whatever the parsed map held in these fields.\<close>

theorem loader_sourceMap_fields:
  assumes "sourceMap this"
    and "fst (loader env d this content g) = Inr (Succeeded result smo)"
  shows "\<exists>sm. smo = Some sm \<and> sources sm = [resourcePath this]
          \<and> map_file sm = resourcePath this \<and> sourcesContent sm = [content]"
proof (cases "getLoaderInstance env this (loaderInstances g)")
  case (Inl e)
  from loader_Inl [OF this] assms(2) show ?thesis by simp
next
  case (Inr r)
  obtain this1 inst insts where r: "r = (this1, inst, insts)" by (cases r)
  obtain out' h where rn:
    "run (getEmitOutput env (service inst) (resourcePath this)) d (fileNames env (service inst))
           \<lparr>host_files = loader_update (resourcePath this) content (files inst),
            host_currentLoader = Some (this1\<lparr>cacheable := True\<rparr>)\<rparr> = (out', h)"
    by (cases "run (getEmitOutput env (service inst) (resourcePath this)) d
           (fileNames env (service inst))
           \<lparr>host_files = loader_update (resourcePath this) content (files inst),
            host_currentLoader = Some (this1\<lparr>cacheable := True\<rparr>)\<rparr>")
  from loader_Inr [OF Inr [unfolded r] rn] obtain this3 where
    t: "resourcePath this3 = resourcePath this" "sourceMap this3 = sourceMap this"
    and l: "fst (loader env d this content g) = loader_result env this3 content out'"
    by auto
  from assms t l have "sourceMap this3"
    "loader_result env this3 content out' = Inr (Succeeded result smo)"
    by simp_all
  from loader_result_sourceMap [OF this] t show ?thesis by simp
qed

theorem loader_sourceMap_fields_witness:
  "sourceMap (ex_loader True ''?a'' ''/p/a.ts'')
   \<and> fst (loader (ex_env ex_output) ex_disk (ex_loader True ''?a'' ''/p/a.ts'')
            ''let x=1'' ex_globals)
     = Inr (Succeeded ''var x = 1''
              (Some \<lparr>sources = [''/p/a.ts''], map_file = ''/p/a.ts'',
                     sourcesContent = [''let x=1'']\<rparr>))
   \<and> sources \<lparr>sources = [''/p/a.ts''], map_file = ''/p/a.ts'',
               sourcesContent = [''let x=1'']\<rparr>
     = [resourcePath (ex_loader True ''?a'' ''/p/a.ts'')]"
proof -
  have h1: "sourceMap (ex_loader True ''?a'' ''/p/a.ts'')"
    by (simp add: ex_loader_def)
  have h2: "fst (loader (ex_env ex_output) ex_disk (ex_loader True ''?a'' ''/p/a.ts'')
                   ''let x=1'' ex_globals)
              = Inr (Succeeded ''var x = 1''
                      (Some \<lparr>sources = [''/p/a.ts''], map_file = ''/p/a.ts'',
                             sourcesContent = [''let x=1'']\<rparr>))"
    by (simp add: ex_defs model_defs)
  from loader_sourceMap_fields [OF h1 h2]
  have "sources \<lparr>sources = [''/p/a.ts''], map_file = ''/p/a.ts'',
                 sourcesContent = [''let x=1'']\<rparr>
          = [resourcePath (ex_loader True ''?a'' ''/p/a.ts'')]"
    by blast
  with h1 h2 show ?thesis by blast
qed

section \<open>Isolation of sessions\<close>





end
